theory Spec2Isabelle
  imports Main "HOL-Library.Sublist"
begin

section \<open>Python values and string primitives\<close>

text \<open>
  Strings are \<open>char list\<close>. The exceptions that the pipeline can meet are values of one
  datatype; \<open>exn_str\<close> is Python's \<open>str(e)\<close>. For an \<open>HTTPException\<close> it is Starlette's
  rendering \<open>status: detail\<close>. A \<open>ValidationError\<close> is pydantic's, raised when a response
  model rejects its input; it carries the names of the rejected fields, and of its
  multi-line report \<open>exn_str\<close> keeps the first line and those names.
\<close>

datatype exn =
    HTTPException nat string
  | JSONDecodeError string
  | ValueError string
  | AttributeError string
  | TypeError string
  | RuntimeError string
  | IntegrityError string
  | ValidationError "string list"

fun digit_char :: "nat \<Rightarrow> char" where
  "digit_char n = ''0123456789'' ! n"

fun str_nat :: "nat \<Rightarrow> string" where
  "str_nat n = (if n < 10 then [digit_char n] else str_nat (n div 10) @ [digit_char (n mod 10)])"

declare str_nat.simps [simp del]

fun exn_str :: "exn \<Rightarrow> string" where
  "exn_str (HTTPException code detail) = str_nat code @ '': '' @ detail"
| "exn_str (JSONDecodeError m) = m"
| "exn_str (ValueError m) = m"
| "exn_str (AttributeError m) = m"
| "exn_str (TypeError m) = m"
| "exn_str (RuntimeError m) = m"
| "exn_str (IntegrityError m) = m"
| "exn_str (ValidationError fields) =
     str_nat (length fields) @ '' validation error for ChatQueryResponse'' @
     concat (map (\<lambda>f. CHR 0x0A # f) fields)"

text \<open>
  \<open>str.isspace\<close> on the code points below 256: tab to carriage return, the four
  separators 28 to 31, space, NEL (133) and no-break space (160).
\<close>

definition py_isspace :: "char \<Rightarrow> bool" where
  "py_isspace c =
     (let n = (of_char c :: nat)
      in (9 \<le> n \<and> n \<le> 13) \<or> (28 \<le> n \<and> n \<le> 32) \<or> n = 133 \<or> n = 160)"

definition py_strip :: "string \<Rightarrow> string" where
  "py_strip s = rev (dropWhile py_isspace (rev (dropWhile py_isspace s)))"

definition startswith :: "string \<Rightarrow> string \<Rightarrow> bool" where
  "startswith s p = prefix p s"

text \<open>
  \<open>s.replace(old, new)\<close>: all non-overlapping occurrences, found left to right. With an
  empty \<open>old\<close> Python puts \<open>new\<close> before every character and at the end.
\<close>

function replace_scan :: "string \<Rightarrow> string \<Rightarrow> string \<Rightarrow> string" where
  "replace_scan old new [] = []"
| "replace_scan old new (c # cs) =
     (if prefix old (c # cs) then new @ replace_scan old new (drop (length old - 1) cs)
      else c # replace_scan old new cs)"
  by pat_completeness auto
termination
  by (relation "measure (\<lambda>(old, new, s). length s)") auto

definition py_replace :: "string \<Rightarrow> string \<Rightarrow> string \<Rightarrow> string" where
  "py_replace s old new =
     (if old = [] then new @ concat (map (\<lambda>c. c # new) s) else replace_scan old new s)"

definition fence :: string where
  "fence = [CHR 0x60, CHR 0x60, CHR 0x60]"

definition fence_sql :: string where
  "fence_sql = fence @ ''sql''"


type_synonym 'v row_dict = "(string \<times> 'v) list"

section \<open>JSON values, prompts and the language-model client\<close>

text \<open>
  What \<open>json.loads\<close> returns. A \<open>JObj\<close> holds the items of a Python dict in insertion
  order, its keys distinct. \<open>JFloat m e\<close> stands for the float \<open>m * 2^e\<close>.
\<close>

datatype json =
    JNull
  | JBool bool
  | JInt int
  | JFloat int int
  | JStr string
  | JArr "json list"
  | JObj "(string \<times> json) list"

text \<open>
  The text of each prompt is an f-string around the values interpolated into it; a prompt
  is represented by those values. \<open>SqlPrompt\<close> carries the schema, the trailing history as
  (role, content) pairs and the question; \<open>FixPrompt\<close> the schema, the failed SQL and the
  error message; \<open>InterpretPrompt\<close> the question, the SQL, the preview of the first rows
  and the total row count. The client \<open>llm.invoke\<close> returns the reply's content or raises.
\<close>

datatype prompt =
    SqlPrompt json "(string \<times> json) list" string
  | FixPrompt json string string
  | InterpretPrompt string string string nat

type_synonym llm = "prompt \<Rightarrow> exn + string"

text \<open>
  \<open>LLMService._initialize_llm\<close>: one of three clients, chosen by the provider's name; any
  other name raises \<open>ValueError\<close>. The parameter \<open>client\<close> builds the client of a model name
  and an API key.
\<close>

definition initialize_llm :: "(string \<Rightarrow> string \<Rightarrow> llm) \<Rightarrow> string \<Rightarrow> string \<Rightarrow> exn + llm" where
  "initialize_llm client provider api_key =
     (if provider = ''openai'' then Inr (client ''gpt-4o'' api_key)
      else if provider = ''google'' then Inr (client ''gemini-1.5-pro'' api_key)
      else if provider = ''anthropic'' then Inr (client ''claude-3-5-sonnet-20241022'' api_key)
      else Inl (ValueError (''Unsupported provider: '' @ provider)))"

section \<open>LLMService: SQL generation, repair, interpretation\<close>

text \<open>The dict \<open>{"success": True, "sql": ...}\<close> or \<open>{"success": False, "error": ...}\<close>.\<close>

datatype sql_result = SqlSuccess string | SqlFailure string

text \<open>\<open>chat_history[-5:]\<close>.\<close>

definition last5 :: "'a list \<Rightarrow> 'a list" where
  "last5 xs = drop (length xs - 5) xs"

definition text_to_sql :: "llm \<Rightarrow> string \<Rightarrow> json \<Rightarrow> (string \<times> json) list \<Rightarrow> sql_result" where
  "text_to_sql llm user_query schema_json chat_history =
     (case llm (SqlPrompt schema_json (last5 chat_history) user_query) of
        Inl e \<Rightarrow> SqlFailure (exn_str e)
      | Inr content \<Rightarrow>
          (let sql_query = py_strip content
           in SqlSuccess
                (if startswith sql_query fence_sql
                 then py_strip (py_replace (py_replace sql_query fence_sql []) fence [])
                 else if startswith sql_query fence
                 then py_strip (py_replace sql_query fence [])
                 else sql_query)))"

definition fix_sql_error :: "llm \<Rightarrow> string \<Rightarrow> string \<Rightarrow> json \<Rightarrow> sql_result" where
  "fix_sql_error llm original_sql error_message schema_json =
     (case llm (FixPrompt schema_json original_sql error_message) of
        Inl e \<Rightarrow> SqlFailure (exn_str e)
      | Inr content \<Rightarrow>
          (let sql_query = py_strip content
           in SqlSuccess
                (if startswith sql_query fence_sql
                 then py_strip (py_replace (py_replace sql_query fence_sql []) fence [])
                 else if startswith sql_query fence
                 then py_strip (py_replace sql_query fence [])
                 else sql_query)))"

text \<open>
  \<open>interpret_results\<close> returns \<open>{"success": True, "interpretation": ...}\<close> or
  \<open>{"success": False, "error": ...}\<close>. A result row is a dict from column name to value,
  kept as its items in insertion order. The preview \<open>json.dumps(query_results[:10])\<close> is
  computed before the \<open>try\<close>, so an exception of \<open>json.dumps\<close> leaves the function; the
  two \<open>except\<close> clauses are \<open>interpret_except\<close>, tried in the source's order.
\<close>

datatype interpret_result = InterpretSuccess json | InterpretFailure string

text \<open>The f-string \<open>Found {n} results.\<close>, used by the fallback and by the endpoint.\<close>

definition found_results :: "nat \<Rightarrow> string" where
  "found_results n = ''Found '' @ str_nat n @ '' results.''"

definition canned_interpretation :: "nat \<Rightarrow> json" where
  "canned_interpretation n =
     JObj [(''answer'', JStr (found_results n)),
           (''insights'', JArr []),
           (''visualization_type'', JStr ''table'')]"

fun interpret_except :: "nat \<Rightarrow> exn \<Rightarrow> interpret_result" where
  "interpret_except n (JSONDecodeError m) = InterpretSuccess (canned_interpretation n)"
| "interpret_except n e = InterpretFailure (exn_str e)"

definition interpret_results ::
  "llm \<Rightarrow> (('v row_dict) list \<Rightarrow> exn + string) \<Rightarrow> (string \<Rightarrow> exn + json) \<Rightarrow>
   string \<Rightarrow> string \<Rightarrow> ('v row_dict) list \<Rightarrow> exn + interpret_result" where
  "interpret_results llm json_dumps json_loads user_query sql_query query_results =
     (case json_dumps (take 10 query_results) of
        Inl e \<Rightarrow> Inl e
      | Inr results_preview \<Rightarrow>
          Inr (case llm (InterpretPrompt user_query sql_query results_preview
                          (length query_results)) of
                 Inl e \<Rightarrow> interpret_except (length query_results) e
               | Inr content \<Rightarrow>
                   (case json_loads (py_strip content) of
                      Inl e \<Rightarrow> interpret_except (length query_results) e
                    | Inr interpretation \<Rightarrow> InterpretSuccess interpretation)))"

section \<open>DuckDBManager: the query executor\<close>

text \<open>
  The engine is the parameter \<open>run\<close>: \<open>conn.execute(sql).fetchdf()\<close> on a store returns a
  data frame or raises, and leaves the store in a new state (the SQL is not restricted to
  reads). \<open>to_dict_records\<close> is \<open>DataFrame.to_dict('records')\<close>: one \<open>dict(zip(columns, row))\<close>
  per row, where a repeated key keeps its first position and takes the later value.
\<close>

record 'v frame =
  frame_columns :: "string list"
  frame_rows :: "'v list list"

fun dict_set :: "'k \<Rightarrow> 'v \<Rightarrow> ('k \<times> 'v) list \<Rightarrow> ('k \<times> 'v) list" where
  "dict_set k v [] = [(k, v)]"
| "dict_set k v ((k', v') # d) = (if k = k' then (k, v) # d else (k', v') # dict_set k v d)"

definition py_dict :: "('k \<times> 'v) list \<Rightarrow> ('k \<times> 'v) list" where
  "py_dict items = foldl (\<lambda>d kv. dict_set (fst kv) (snd kv) d) [] items"

definition to_dict_records :: "'v frame \<Rightarrow> ('v row_dict) list" where
  "to_dict_records result = map (\<lambda>row. py_dict (zip (frame_columns result) row)) (frame_rows result)"

datatype 'v query_result =
    QuerySuccess "('v row_dict) list" "string list" nat
  | QueryFailure string string

record 'st DuckDBManager =
  db_path :: string
  conn :: "'st option"

text \<open>
  \<open>execute_query\<close>: the whole body is inside \<open>try ... except Exception\<close>. Without a
  connection, \<open>self.conn.execute\<close> raises \<open>AttributeError\<close>, which is caught like the rest.
\<close>

definition execute_query ::
  "('st \<Rightarrow> string \<Rightarrow> (exn + 'v frame) \<times> 'st) \<Rightarrow> 'st DuckDBManager \<Rightarrow> string \<Rightarrow>
   'v query_result \<times> 'st DuckDBManager" where
  "execute_query run self sql =
     (case conn self of
        None \<Rightarrow>
          (QueryFailure (exn_str (AttributeError
             (CHR 0x27 # ''NoneType'' @ CHR 0x27 # '' object has no attribute '' @
              CHR 0x27 # ''execute'' @ [CHR 0x27]))) sql, self)
      | Some st \<Rightarrow>
          (case run st sql of
             (Inl e, st') \<Rightarrow> (QueryFailure (exn_str e) sql, self\<lparr>conn := Some st'\<rparr>)
           | (Inr result, st') \<Rightarrow>
               (QuerySuccess (to_dict_records result) (frame_columns result)
                  (length (frame_rows result)), self\<lparr>conn := Some st'\<rparr>)))"


section \<open>The relational store and the chat-query endpoint\<close>

text \<open>
  The tables that \<open>query_data\<close> reads, each a list of rows in the order the database
  returns them, so that \<open>.first()\<close> is \<open>find\<close>. A message's \<open>content\<close> is the Python value
  the stored row holds: a string everywhere except for the interpreted answer, which is
  what the database made of the value under \<open>answer\<close> in the model's JSON object.
  Messages are listed in the order of their \<open>created_at\<close>, which is the order of
  insertion.
\<close>

record chat =
  chat_id :: int
  chat_user_id :: int
  chat_project_id :: int

record project =
  project_id :: int
  project_duckdb_file_path :: string
  project_schema_json :: "string option"

record llm_config =
  config_user_id :: int
  config_provider :: string
  config_encrypted_api_key :: string
  config_is_active :: int

record message =
  msg_chat_id :: int
  msg_role :: string
  msg_content :: json
  msg_sql_query :: "string option"
  msg_query_result :: "string option"
  msg_error_message :: "string option"

record chat_query_request =
  req_chat_id :: int
  req_query :: string

record 'v chat_query_response =
  resp_message :: message
  resp_data :: "('v row_dict) list option"
  resp_visualization_type :: "string option"

text \<open>
  The collaborators outside the repository's code: Fernet decryption, the provider
  clients, \<open>json.loads\<close>, \<open>json.dumps\<close> on result rows, and DuckDB: \<open>connect\<close> is
  \<open>duckdb.connect(path)\<close> on the file's store, which gives the connection's store or
  raises, and \<open>engine\<close> runs a statement. \<open>bind_content\<close> is what the relational
  database does with a value that is neither a string nor \<open>None\<close> when it is committed to
  the text column \<open>content\<close>: the commit raises, or the row is stored and reads back as
  the value given. The relational database is otherwise taken to answer its queries and
  to commit strings.
\<close>

record ('st, 'v) env =
  decrypt_api_key :: "string \<Rightarrow> exn + string"
  chat_client :: "string \<Rightarrow> string \<Rightarrow> llm"
  loads :: "string \<Rightarrow> exn + json"
  dumps :: "('v row_dict) list \<Rightarrow> exn + string"
  connect :: "string \<Rightarrow> 'st \<Rightarrow> exn + 'st"
  engine :: "'st \<Rightarrow> string \<Rightarrow> (exn + 'v frame) \<times> 'st"
  bind_content :: "json \<Rightarrow> exn + json"

text \<open>
  The state a request runs in: the tables, the analytical store of every file path, and
  a log of what the request did, in order: each committed message and each call to the
  generator, the executor, the repair and the interpreter. The log is not in the source;
  it records the calls the source makes.
\<close>

datatype event =
    Stored message
  | Generated
  | Executed string
  | Repaired string string
  | Interpreted

record 'st world =
  chats :: "chat list"
  projects :: "project list"
  llm_configs :: "llm_config list"
  messages :: "message list"
  stores :: "string \<Rightarrow> 'st"
  trace :: "event list"

definition log_event :: "event \<Rightarrow> 'st world \<Rightarrow> 'st world" where
  "log_event ev w = w\<lparr>trace := trace w @ [ev]\<rparr>"

text \<open>\<open>db.add(m); db.commit()\<close>.\<close>

definition db_add :: "message \<Rightarrow> 'st world \<Rightarrow> 'st world" where
  "db_add m w = w\<lparr>messages := messages w @ [m], trace := trace w @ [Stored m]\<rparr>"

text \<open>
  The last five messages of the chat, newest first, then reversed (lines 153 to 162).
\<close>

definition recent_history :: "int \<Rightarrow> message list \<Rightarrow> (string \<times> json) list" where
  "recent_history cid ms =
     map (\<lambda>msg. (msg_role msg, msg_content msg))
       (rev (take 5 (rev (filter (\<lambda>msg. msg_chat_id msg = cid) ms))))"

fun py_type_name :: "json \<Rightarrow> string" where
  "py_type_name JNull = ''NoneType''"
| "py_type_name (JBool b) = ''bool''"
| "py_type_name (JInt i) = ''int''"
| "py_type_name (JFloat m e) = ''float''"
| "py_type_name (JStr s) = ''str''"
| "py_type_name (JArr xs) = ''list''"
| "py_type_name (JObj items) = ''dict''"

definition no_attribute :: "string \<Rightarrow> string \<Rightarrow> exn" where
  "no_attribute ty attr =
     AttributeError (CHR 0x27 # ty @ CHR 0x27 # '' object has no attribute '' @
                     CHR 0x27 # attr @ [CHR 0x27])"

text \<open>\<open>value.get(key, default)\<close>: only a dict has \<open>get\<close>.\<close>

fun json_get :: "json \<Rightarrow> string \<Rightarrow> json \<Rightarrow> exn + json" where
  "json_get (JObj items) key dflt = Inr (case map_of items key of None \<Rightarrow> dflt | Some v \<Rightarrow> v)"
| "json_get j key dflt = Inl (no_attribute (py_type_name j) ''get'')"

text \<open>\<open>interpret_result.get("interpretation", {})\<close>.\<close>

fun result_interpretation :: "interpret_result \<Rightarrow> json" where
  "result_interpretation (InterpretSuccess interpretation) = interpretation"
| "result_interpretation (InterpretFailure err) = JObj []"

text \<open>
  Lines 177 to 187: execute; on failure ask for a repair and, if the repair call returns
  SQL, execute that. The result is the SQL now current, its outcome, the connection and
  the log.
\<close>

definition execute_with_repair ::
  "('st, 'v) env \<Rightarrow> llm \<Rightarrow> json \<Rightarrow> string \<Rightarrow> 'st DuckDBManager \<Rightarrow> 'st world \<Rightarrow>
   string \<times> 'v query_result \<times> 'st DuckDBManager \<times> 'st world" where
  "execute_with_repair E llm schema sql_query duck_db w =
     (case execute_query (engine E) duck_db sql_query of
        (query_result, duck_db1) \<Rightarrow>
          (let w1 = log_event (Executed sql_query) w
           in case query_result of
                QuerySuccess rows cols n \<Rightarrow> (sql_query, query_result, duck_db1, w1)
              | QueryFailure err failed \<Rightarrow>
                  (let w2 = log_event (Repaired sql_query err) w1
                   in case fix_sql_error llm sql_query err schema of
                        SqlFailure fix_err \<Rightarrow> (sql_query, query_result, duck_db1, w2)
                      | SqlSuccess fixed \<Rightarrow>
                          (case execute_query (engine E) duck_db1 fixed of
                             (query_result2, duck_db2) \<Rightarrow>
                               (fixed, query_result2, duck_db2,
                                log_event (Executed fixed) w2)))))"

text \<open>Lines 189 to 206: the turn and the response of a failed execution.\<close>

definition error_turn :: "int \<Rightarrow> string \<Rightarrow> string \<Rightarrow> message" where
  "error_turn cid sql_query err =
     \<lparr>msg_chat_id = cid, msg_role = ''assistant'',
      msg_content = JStr (''I encountered an error: '' @ err),
      msg_sql_query = Some sql_query, msg_query_result = None,
      msg_error_message = Some err\<rparr>"

text \<open>Lines 218 to 224: the turn of an interpreted answer.\<close>

definition answer_turn :: "int \<Rightarrow> json \<Rightarrow> string \<Rightarrow> string \<Rightarrow> message" where
  "answer_turn cid answer sql_query dumped =
     \<lparr>msg_chat_id = cid, msg_role = ''assistant'', msg_content = answer,
      msg_sql_query = Some sql_query, msg_query_result = Some dumped,
      msg_error_message = None\<rparr>"

text \<open>
  \<open>db.add; db.commit; db.refresh\<close> of the answer turn (lines 225 to 227). The column
  \<open>content\<close> is \<open>Text, nullable=False\<close>: a string is stored as it is, \<open>None\<close> violates the
  constraint and the commit raises, and any other value is the database's affair. The
  result is the content the refreshed row holds.
\<close>

definition commit_content :: "(json \<Rightarrow> exn + json) \<Rightarrow> json \<Rightarrow> exn + json" where
  "commit_content bind answer =
     (case answer of
        JStr text \<Rightarrow> Inr (JStr text)
      | JNull \<Rightarrow> Inl (IntegrityError ''NOT NULL constraint failed: messages.content'')
      | JBool b \<Rightarrow> bind answer
      | JInt i \<Rightarrow> bind answer
      | JFloat m e \<Rightarrow> bind answer
      | JArr xs \<Rightarrow> bind answer
      | JObj items \<Rightarrow> bind answer)"

text \<open>
  \<open>ChatQueryResponse(message=..., data=..., visualization_type=...)\<close> (lines 229 to 233)
  validates its arguments: \<open>MessageResponse.content\<close> is \<open>str\<close>, \<open>visualization_type\<close> is
  \<open>Optional[str]\<close>, \<open>data\<close> is \<open>Optional[Any]\<close>. The other fields of the message are
  strings or \<open>None\<close> by construction. The result is the validated visualization type.
\<close>

fun optional_str :: "json \<Rightarrow> string option option" where
  "optional_str (JStr text) = Some (Some text)"
| "optional_str JNull = Some None"
| "optional_str j = None"

fun is_str :: "json \<Rightarrow> bool" where
  "is_str (JStr text) = True"
| "is_str j = False"

definition validate_response :: "json \<Rightarrow> json \<Rightarrow> exn + string option" where
  "validate_response content viz_type =
     (case optional_str viz_type of
        Some v \<Rightarrow>
          (if is_str content then Inr v else Inl (ValidationError [''message.content'']))
      | None \<Rightarrow>
          (if is_str content then Inl (ValidationError [''visualization_type''])
           else Inl (ValidationError [''message.content'', ''visualization_type''])))"

text \<open>
  Lines 208 to 233: interpret, read the answer and the visualization type with their
  defaults, serialize the rows, commit the turn, build the response. Each step that
  raises leaves the block; the response is validated after the turn is committed, so a
  rejected response leaves the answer turn stored.
\<close>

definition interpret_and_store ::
  "('st, 'v) env \<Rightarrow> llm \<Rightarrow> int \<Rightarrow> string \<Rightarrow> string \<Rightarrow> ('v row_dict) list \<Rightarrow> nat \<Rightarrow>
   'st world \<Rightarrow> (exn + 'v chat_query_response) \<times> 'st world" where
  "interpret_and_store E llm cid user_query sql_query rows row_count w =
     (let w1 = log_event Interpreted w
      in case interpret_results llm (dumps E) (loads E) user_query sql_query rows of
           Inl e \<Rightarrow> (Inl e, w1)
         | Inr interpret_result \<Rightarrow>
             (let interpretation = result_interpretation interpret_result
              in case json_get interpretation ''answer'' (JStr (found_results row_count)) of
                   Inl e \<Rightarrow> (Inl e, w1)
                 | Inr answer \<Rightarrow>
                     (case json_get interpretation ''visualization_type'' (JStr ''table'') of
                        Inl e \<Rightarrow> (Inl e, w1)
                      | Inr viz_type \<Rightarrow>
                          (case dumps E rows of
                             Inl e \<Rightarrow> (Inl e, w1)
                           | Inr dumped \<Rightarrow>
                               (case commit_content (bind_content E) answer of
                                  Inl e \<Rightarrow> (Inl e, w1)
                                | Inr content \<Rightarrow>
                                    (let assistant_message =
                                           answer_turn cid content sql_query dumped;
                                         w2 = db_add assistant_message w1
                                     in case validate_response content viz_type of
                                          Inl e \<Rightarrow> (Inl e, w2)
                                        | Inr viz \<Rightarrow>
                                            (Inr \<lparr>resp_message = assistant_message,
                                                  resp_data = Some rows,
                                                  resp_visualization_type = viz\<rparr>,
                                             w2)))))))"

text \<open>The body of the \<open>with\<close> block, lines 177 to 233.\<close>

definition query_data_with ::
  "('st, 'v) env \<Rightarrow> llm \<Rightarrow> int \<Rightarrow> string \<Rightarrow> json \<Rightarrow> string \<Rightarrow> 'st DuckDBManager \<Rightarrow>
   'st world \<Rightarrow> (exn + 'v chat_query_response) \<times> 'st DuckDBManager \<times> 'st world" where
  "query_data_with E llm cid user_query schema sql_query duck_db w =
     (case execute_with_repair E llm schema sql_query duck_db w of
        (sql_query', query_result, duck_db', w') \<Rightarrow>
          (case query_result of
             QueryFailure err failed \<Rightarrow>
               (let assistant_message = error_turn cid sql_query' err
                in (Inr \<lparr>resp_message = assistant_message, resp_data = None,
                         resp_visualization_type = None\<rparr>,
                    duck_db', db_add assistant_message w'))
           | QuerySuccess rows cols row_count \<Rightarrow>
               (case interpret_and_store E llm cid user_query sql_query' rows row_count w' of
                  (r, w'') \<Rightarrow> (r, duck_db', w''))))"

text \<open>
  \<open>DuckDBManager(path).__enter__\<close>: \<open>duckdb.connect\<close> opens the file or raises.
\<close>

definition DuckDBManager_enter ::
  "(string \<Rightarrow> 'st \<Rightarrow> exn + 'st) \<Rightarrow> string \<Rightarrow> 'st \<Rightarrow> exn + 'st DuckDBManager" where
  "DuckDBManager_enter duckdb_connect path file =
     (case duckdb_connect path file of
        Inl e \<Rightarrow> Inl e
      | Inr st \<Rightarrow> Inr \<lparr>db_path = path, conn = Some st\<rparr>)"

text \<open>\<open>DuckDBManager.__exit__\<close>: the connection is closed, the file keeps the store.\<close>

definition close_store :: "'st DuckDBManager \<Rightarrow> 'st world \<Rightarrow> 'st world" where
  "close_store duck_db w =
     (case conn duck_db of
        None \<Rightarrow> w
      | Some st \<Rightarrow> w\<lparr>stores := (stores w)(db_path duck_db := st)\<rparr>)"

text \<open>\<open>json.loads(project.schema_json) if project.schema_json else {}\<close>.\<close>

definition load_schema :: "(string \<Rightarrow> exn + json) \<Rightarrow> string option \<Rightarrow> exn + json" where
  "load_schema json_loads schema_text =
     (case schema_text of
        None \<Rightarrow> Inr (JObj [])
      | Some s \<Rightarrow> if s = [] then Inr (JObj []) else json_loads s)"

text \<open>
  Lines 145 to 150, the first statements of the \<open>try\<close>: decrypt the key, build the client,
  read the project's schema. A chat whose project row is missing makes
  \<open>project.schema_json\<close> raise \<open>AttributeError\<close>.
\<close>

definition prepare ::
  "('st, 'v) env \<Rightarrow> project option \<Rightarrow> llm_config \<Rightarrow> exn + (llm \<times> project \<times> json)" where
  "prepare E project llm_config =
     (case decrypt_api_key E (config_encrypted_api_key llm_config) of
        Inl e \<Rightarrow> Inl e
      | Inr api_key \<Rightarrow>
          (case initialize_llm (chat_client E) (config_provider llm_config) api_key of
             Inl e \<Rightarrow> Inl e
           | Inr llm \<Rightarrow>
               (case project of
                  None \<Rightarrow> Inl (no_attribute ''NoneType'' ''schema_json'')
                | Some proj \<Rightarrow>
                    (case load_schema (loads E) (project_schema_json proj) of
                       Inl e \<Rightarrow> Inl e
                     | Inr schema \<Rightarrow> Inr (llm, proj, schema)))))"

text \<open>
  The body of the \<open>try\<close>, lines 145 to 233. The store is opened by the \<open>with\<close> statement
  of line 176, inside the \<open>try\<close>: when \<open>duckdb.connect\<close> raises, nothing is executed.
\<close>

definition query_data_try ::
  "('st, 'v) env \<Rightarrow> chat \<Rightarrow> project option \<Rightarrow> llm_config \<Rightarrow> string \<Rightarrow> 'st world \<Rightarrow>
   (exn + 'v chat_query_response) \<times> 'st world" where
  "query_data_try E chat project llm_config user_query w =
     (case prepare E project llm_config of
        Inl e \<Rightarrow> (Inl e, w)
      | Inr (llm, proj, schema) \<Rightarrow>
          (let chat_history = recent_history (chat_id chat) (messages w);
               w1 = log_event Generated w
           in case text_to_sql llm user_query schema chat_history of
                SqlFailure err \<Rightarrow>
                  (Inl (HTTPException 500 (''Failed to generate SQL: '' @ err)), w1)
              | SqlSuccess sql_query \<Rightarrow>
                  (let path = project_duckdb_file_path proj
                   in case DuckDBManager_enter (connect E) path (stores w1 path) of
                        Inl e \<Rightarrow> (Inl e, w1)
                      | Inr duck_db \<Rightarrow>
                          (case query_data_with E llm (chat_id chat) user_query schema
                                  sql_query duck_db w1 of
                             (r, duck_db', w2) \<Rightarrow> (r, close_store duck_db' w2)))))"

text \<open>The three look-ups of lines 106 to 127; \<open>.first()\<close> is \<open>find\<close>.\<close>

definition get_chat :: "'st world \<Rightarrow> int \<Rightarrow> chat_query_request \<Rightarrow> chat option" where
  "get_chat w current_user_id req =
     find (\<lambda>c. chat_id c = req_chat_id req \<and> chat_user_id c = current_user_id) (chats w)"

definition get_project :: "'st world \<Rightarrow> chat \<Rightarrow> project option" where
  "get_project w chat = find (\<lambda>p. project_id p = chat_project_id chat) (projects w)"

definition get_active_config :: "'st world \<Rightarrow> int \<Rightarrow> llm_config option" where
  "get_active_config w current_user_id =
     find (\<lambda>c. config_user_id c = current_user_id \<and> config_is_active c = 1) (llm_configs w)"

text \<open>The user's turn (lines 136 to 140) and the turn of the \<open>except\<close> handler (237 to 242).\<close>

definition user_turn :: "int \<Rightarrow> string \<Rightarrow> message" where
  "user_turn cid user_query =
     \<lparr>msg_chat_id = cid, msg_role = ''user'', msg_content = JStr user_query,
      msg_sql_query = None, msg_query_result = None, msg_error_message = None\<rparr>"

definition exception_turn :: "int \<Rightarrow> exn \<Rightarrow> message" where
  "exception_turn cid e =
     \<lparr>msg_chat_id = cid, msg_role = ''assistant'',
      msg_content = JStr (''An error occurred: '' @ exn_str e),
      msg_sql_query = None, msg_query_result = None,
      msg_error_message = Some (exn_str e)\<rparr>"

text \<open>
  \<open>query_data\<close>, the handler of \<open>POST /chat/query\<close>, for an authenticated user. The
  result is the response or the \<open>HTTPException\<close> that leaves the handler.
\<close>

definition query_data ::
  "('st, 'v) env \<Rightarrow> int \<Rightarrow> chat_query_request \<Rightarrow> 'st world \<Rightarrow>
   (exn + 'v chat_query_response) \<times> 'st world" where
  "query_data E current_user_id req w =
     (case get_chat w current_user_id req of
        None \<Rightarrow> (Inl (HTTPException 404 ''Chat not found''), w)
      | Some chat \<Rightarrow>
          (let project = get_project w chat
           in case get_active_config w current_user_id of
                None \<Rightarrow>
                  (Inl (HTTPException 400
                     ''No active LLM configuration. Please configure your API key.''), w)
              | Some llm_config \<Rightarrow>
                  (let w1 = db_add (user_turn (chat_id chat) (req_query req)) w
                   in case query_data_try E chat project llm_config (req_query req) w1 of
                        (Inr response, w2) \<Rightarrow> (Inr response, w2)
                      | (Inl e, w2) \<Rightarrow>
                          (Inl (HTTPException 500 (exn_str e)),
                           db_add (exception_turn (chat_id chat) e) w2))))"

text \<open>The number of backticks a string starts with; used to reason about \<open>replace\<close>.\<close>

definition ticks :: "string \<Rightarrow> nat" where
  "ticks s = length (takeWhile (\<lambda>c. c = CHR 0x60) s)"

section \<open>A small deployment for examples\<close>

text \<open>
  An engine over a store that holds one table: it answers one query with three rows and
  rejects every other statement; neither changes the store.
\<close>

definition demo_run :: "nat \<Rightarrow> string \<Rightarrow> (exn + int frame) \<times> nat" where
  "demo_run st sql =
     (if sql = ''SELECT id, n FROM data''
      then (Inr \<lparr>frame_columns = [''id'', ''n''],
                 frame_rows = [[1, 10], [2, 20], [3, 30]]\<rparr>, st)
      else (Inl (RuntimeError ''Parser Error: syntax error at or near SELEC''), st))"

text \<open>
  A client that gives one fixed outcome to each kind of prompt, an engine that rejects
  every statement, a \<open>json.loads\<close> that knows the empty object and one object with a
  numeric visualization type, a \<open>duckdb.connect\<close> that opens every file and one that
  opens none, and a store with one user (7), one chat (1) on one project (3) and one
  active configuration. The clients differ in the call that fails: none (\<open>llm_healing\<close>,
  whose first SQL is misspelt and whose repair is fenced, and \<open>llm_chart_5\<close>, which
  interprets with the numeric visualization type), the generation, the repair, the
  interpretation.
\<close>

definition scripted_llm :: "exn + string \<Rightarrow> exn + string \<Rightarrow> exn + string \<Rightarrow> llm" where
  "scripted_llm gen rep interp p =
     (case p of
        SqlPrompt schema history question \<Rightarrow> gen
      | FixPrompt schema failed err \<Rightarrow> rep
      | InterpretPrompt question sql preview n \<Rightarrow> interp)"

definition failing_run :: "nat \<Rightarrow> string \<Rightarrow> (exn + int frame) \<times> nat" where
  "failing_run st sql =
     (Inl (RuntimeError ''Catalog Error: Table with name data does not exist!''), st)"

definition reply_chart_5 :: string where
  "reply_chart_5 = ''{'' @ [CHR 0x22] @ ''visualization_type'' @ [CHR 0x22] @ '': 5}''"

definition demo_loads :: "string \<Rightarrow> exn + json" where
  "demo_loads s =
     (if s = ''{}'' then Inr (JObj [])
      else if s = reply_chart_5 then Inr (JObj [(''visualization_type'', JInt 5)])
      else Inl (JSONDecodeError ''Expecting value: line 1 column 1 (char 0)''))"

definition locked_connect :: "string \<Rightarrow> nat \<Rightarrow> exn + nat" where
  "locked_connect path file = Inl (RuntimeError ''IO Error: Could not set lock on file'')"

definition demo_env ::
  "llm \<Rightarrow> (nat \<Rightarrow> string \<Rightarrow> (exn + int frame) \<times> nat) \<Rightarrow> (nat, int) env" where
  "demo_env l run =
     \<lparr>decrypt_api_key = (\<lambda>k. Inr k), chat_client = (\<lambda>model key. l), loads = demo_loads,
      dumps = (\<lambda>rows. Inr ''[rows]''), connect = (\<lambda>path file. Inr file), engine = run,
      bind_content = (\<lambda>v. Inr v)\<rparr>"

definition demo_world :: "nat world" where
  "demo_world =
     \<lparr>chats = [\<lparr>chat_id = 1, chat_user_id = 7, chat_project_id = 3\<rparr>],
      projects = [\<lparr>project_id = 3, project_duckdb_file_path = ''p.duckdb'',
                   project_schema_json = None\<rparr>],
      llm_configs = [\<lparr>config_user_id = 7, config_provider = ''openai'',
                      config_encrypted_api_key = ''k'', config_is_active = 1\<rparr>],
      messages = [], stores = (\<lambda>path. 0), trace = []\<rparr>"

definition demo_request :: chat_query_request where
  "demo_request = \<lparr>req_chat_id = 1, req_query = ''How many rows are there?''\<rparr>"

definition demo_chat :: chat where
  "demo_chat = \<lparr>chat_id = 1, chat_user_id = 7, chat_project_id = 3\<rparr>"

definition demo_project :: project where
  "demo_project = \<lparr>project_id = 3, project_duckdb_file_path = ''p.duckdb'',
                    project_schema_json = None\<rparr>"

definition demo_config :: llm_config where
  "demo_config = \<lparr>config_user_id = 7, config_provider = ''openai'',
                   config_encrypted_api_key = ''k'', config_is_active = 1\<rparr>"

definition connection_error :: exn where
  "connection_error = RuntimeError ''Connection error.''"

definition llm_generation_down :: llm where
  "llm_generation_down =
     scripted_llm (Inl connection_error) (Inr ''SELECT id, n FROM data'') (Inr ''{}'')"

definition llm_repair_down :: llm where
  "llm_repair_down =
     scripted_llm (Inr ''SELECT id, n FROM data'') (Inl connection_error) (Inr ''{}'')"

definition llm_interpreter_down :: llm where
  "llm_interpreter_down =
     scripted_llm (Inr ''SELECT id, n FROM data'') (Inr ''SELECT id, n FROM data'')
       (Inl connection_error)"

definition llm_healing :: llm where
  "llm_healing =
     scripted_llm (Inr ''SELEC id, n FROM data'')
       (Inr ''```sql\<newline>SELECT id, n FROM data\<newline>```'') (Inr ''{}'')"

definition llm_chart_5 :: llm where
  "llm_chart_5 =
     scripted_llm (Inr ''SELEC id, n FROM data'')
       (Inr ''```sql\<newline>SELECT id, n FROM data\<newline>```'') (Inr reply_chart_5)"

definition demo_rows :: "(int row_dict) list" where
  "demo_rows =
     [[(''id'', 1), (''n'', 10)], [(''id'', 2), (''n'', 20)], [(''id'', 3), (''n'', 30)]]"

definition demo_world_unconfigured :: "nat world" where
  "demo_world_unconfigured = demo_world\<lparr>llm_configs := []\<rparr>"

section \<open>Stripping code fences\<close>

lemma ticks_simps [simp]:
  "ticks [] = 0"
  "ticks (c # cs) = (if c = CHR 0x60 then Suc (ticks cs) else 0)"
  by (simp_all add: ticks_def)












lemma replace_scan_hit:
  "old \<noteq> [] \<Longrightarrow> replace_scan old new (old @ s) = new @ replace_scan old new s"
  by (cases old) simp_all

lemma replace_scan_free:
  "CHR 0x60 \<notin> set a \<Longrightarrow>
   replace_scan (CHR 0x60 # p) new (a @ s) = a @ replace_scan (CHR 0x60 # p) new s"
  by (induction a) auto

lemma fence_Cons: "fence = CHR 0x60 # [CHR 0x60, CHR 0x60]"
  by (simp add: fence_def)

lemma fence_sql_Cons: "fence_sql = CHR 0x60 # [CHR 0x60, CHR 0x60] @ ''sql''"
  by (simp add: fence_sql_def fence_def)

lemma fence_not_Nil: "fence \<noteq> []" "fence_sql \<noteq> []"
  by (simp_all add: fence_def fence_sql_def)

lemma replace_fence_free:
  "CHR 0x60 \<notin> set a \<Longrightarrow> replace_scan fence new (a @ s) = a @ replace_scan fence new s"
  unfolding fence_Cons by (rule replace_scan_free)

lemma replace_fence_sql_free:
  "CHR 0x60 \<notin> set a \<Longrightarrow>
   replace_scan fence_sql new (a @ s) = a @ replace_scan fence_sql new s"
  unfolding fence_sql_Cons by (rule replace_scan_free)

lemma replace_fence_hit: "replace_scan fence [] (fence @ s) = replace_scan fence [] s"
  using replace_scan_hit[OF fence_not_Nil(1), of "[]" s] by simp

lemma replace_fence_sql_hit:
  "replace_scan fence_sql [] (fence_sql @ s) = replace_scan fence_sql [] s"
  using replace_scan_hit[OF fence_not_Nil(2), of "[]" s] by simp

lemma replace_fence_end: "replace_scan fence [] fence = []"
  using replace_fence_hit[of "[]"] by simp

lemma replace_fence_sql_end: "replace_scan fence_sql new fence = fence"
  by (simp add: fence_def fence_sql_def)

text \<open>A body without backticks between two fences: both replacements leave the body.\<close>

lemma unwrap_tagged:
  assumes "CHR 0x60 \<notin> set body"
  shows "py_replace (py_replace (fence_sql @ body @ fence) fence_sql []) fence [] = body"
proof -
  have "replace_scan fence_sql [] (fence_sql @ body @ fence) = body @ fence"
    using assms by (simp add: replace_fence_sql_hit replace_fence_sql_free replace_fence_sql_end)
  moreover have "replace_scan fence [] (body @ fence) = body"
    using assms by (simp add: replace_fence_free replace_fence_end)
  ultimately show ?thesis by (simp add: py_replace_def fence_not_Nil)
qed

lemma unwrap_untagged:
  assumes "CHR 0x60 \<notin> set body"
  shows "py_replace (fence @ body @ fence) fence [] = body"
proof -
  have "replace_scan fence [] (fence @ body @ fence) = body"
    using assms by (simp add: replace_fence_hit replace_fence_free replace_fence_end)
  then show ?thesis by (simp add: py_replace_def fence_not_Nil)
qed




text \<open>
  What the clean-up of lines 124 to 128 and 165 to 169 computes from the stripped reply.
\<close>

lemma text_to_sql_reply:
  assumes "llm (SqlPrompt sch (last5 h) q) = Inr content"
  shows "text_to_sql llm q sch h =
           SqlSuccess
             (if startswith (py_strip content) fence_sql
              then py_strip (py_replace (py_replace (py_strip content) fence_sql []) fence [])
              else if startswith (py_strip content) fence
              then py_strip (py_replace (py_strip content) fence [])
              else py_strip content)"
  using assms by (simp add: text_to_sql_def Let_def)


lemma startswith_fences [simp]:
  "startswith (fence_sql @ s) fence_sql"
  "startswith (fence_sql @ s) fence"
  "startswith (fence @ s) fence"
  by (simp_all add: startswith_def fence_sql_def)

text \<open>
  C5, as the code has it. The generator removes a fence that is untagged or tagged
  exactly \<open>sql\<close>: when the model's reply, stripped of surrounding whitespace, is a body
  without backticks between the tagged opening fence and a closing fence, or between an
  untagged opening fence and a closing fence (and does not start with the tagged fence),
  \<open>text_to_sql\<close> returns the body stripped of surrounding whitespace. For the two
  example replies that is \<open>SELECT 1\<close>.
\<close>

theorem text_to_sql_unwraps_fenced_body:
  "(llm (SqlPrompt sch (last5 h) q) = Inr content \<and>
    py_strip content = fence_sql @ body @ fence \<and> CHR 0x60 \<notin> set body \<longrightarrow>
    text_to_sql llm q sch h = SqlSuccess (py_strip body)) \<and>
   (llm (SqlPrompt sch (last5 h) q) = Inr content \<and>
    py_strip content = fence @ body @ fence \<and> CHR 0x60 \<notin> set body \<and>
    \<not> startswith (py_strip content) fence_sql \<longrightarrow>
    text_to_sql llm q sch h = SqlSuccess (py_strip body))"
proof (intro conjI impI)
  assume a: "llm (SqlPrompt sch (last5 h) q) = Inr content \<and>
             py_strip content = fence_sql @ body @ fence \<and> CHR 0x60 \<notin> set body"
  then show "text_to_sql llm q sch h = SqlSuccess (py_strip body)"
    using text_to_sql_reply[of llm sch h q content] by (simp add: unwrap_tagged)
next
  assume a: "llm (SqlPrompt sch (last5 h) q) = Inr content \<and>
             py_strip content = fence @ body @ fence \<and> CHR 0x60 \<notin> set body \<and>
             \<not> startswith (py_strip content) fence_sql"
  then have e: "py_strip content = fence @ body @ fence"
    and n: "\<not> startswith (py_strip content) fence_sql" by blast+
  have "\<not> startswith (fence @ body @ fence) fence_sql" using n unfolding e .
  with a show "text_to_sql llm q sch h = SqlSuccess (py_strip body)"
    using text_to_sql_reply[of llm sch h q content] by (simp add: unwrap_untagged)
qed

theorem text_to_sql_unwraps_witness:
  "text_to_sql (\<lambda>p. Inr ''```sql\<newline>SELECT 1\<newline>```'') ''q'' JNull [] = SqlSuccess ''SELECT 1'' \<and>
   text_to_sql (\<lambda>p. Inr ''```\<newline>SELECT 1\<newline>```'') ''q'' JNull [] = SqlSuccess ''SELECT 1''"
proof -
  let ?body = "''\<newline>SELECT 1\<newline>''"
  have t: "py_strip ''```sql\<newline>SELECT 1\<newline>```'' = fence_sql @ ?body @ fence"
    by (simp add: py_strip_def py_isspace_def fence_def fence_sql_def)
  have u: "py_strip ''```\<newline>SELECT 1\<newline>```'' = fence @ ?body @ fence"
    by (simp add: py_strip_def py_isspace_def fence_def)
  have n: "\<not> startswith (py_strip ''```\<newline>SELECT 1\<newline>```'') fence_sql"
    by (simp add: py_strip_def py_isspace_def startswith_def fence_def fence_sql_def)
  have b: "CHR 0x60 \<notin> set ?body" by simp
  have s: "py_strip ?body = ''SELECT 1''" by (simp add: py_strip_def py_isspace_def)
  show ?thesis
    using t u n b s
      text_to_sql_unwraps_fenced_body
        [of "\<lambda>p. Inr ''```sql\<newline>SELECT 1\<newline>```''" JNull "[]" "''q''"
            "''```sql\<newline>SELECT 1\<newline>```''" ?body]
      text_to_sql_unwraps_fenced_body
        [of "\<lambda>p. Inr ''```\<newline>SELECT 1\<newline>```''" JNull "[]" "''q''"
            "''```\<newline>SELECT 1\<newline>```''" ?body]
    by simp
qed

theorem other_language_tag_is_kept:
  "text_to_sql (\<lambda>p. Inr ''```SQL\<newline>SELECT 1\<newline>```'') ''q'' JNull [] =
     SqlSuccess ''SQL\<newline>SELECT 1''"
  by (simp add: text_to_sql_def py_strip_def py_isspace_def startswith_def fence_sql_def
      fence_def py_replace_def)



section \<open>The interpreter's fallback\<close>

text \<open>
  C6. Whatever the rows, when the interpretation model is reached and its reply does
  not parse as JSON, \<open>interpret_results\<close> raises nothing and returns the canned
  interpretation: the answer \<open>Found n results.\<close> for \<open>n\<close> rows, no insights, and the
  visualization type \<open>table\<close>.
\<close>

theorem interpret_results_falls_back_on_unparsable_reply:
  assumes "json_dumps (take 10 rows) = Inr preview"
      and "llm (InterpretPrompt q sql preview (length rows)) = Inr content"
      and "json_loads (py_strip content) = Inl (JSONDecodeError m)"
  shows "interpret_results llm json_dumps json_loads q sql rows =
           Inr (InterpretSuccess
                  (JObj [(''answer'', JStr (''Found '' @ str_nat (length rows) @ '' results.'')),
                         (''insights'', JArr []),
                         (''visualization_type'', JStr ''table'')]))"
  using assms by (simp add: interpret_results_def canned_interpretation_def found_results_def)

theorem interpret_results_falls_back_witness:
  "interpret_results (\<lambda>p. Inr ''Sorry, no JSON today'') (\<lambda>rs. Inr ''[...]'')
      (\<lambda>s. Inl (JSONDecodeError ''Expecting value: line 1 column 1 (char 0)''))
      ''How many?'' ''SELECT id FROM data''
      [[(''id'', 1::int)], [(''id'', 2)], [(''id'', 3)]] =
   Inr (InterpretSuccess (JObj [(''answer'', JStr ''Found 3 results.''),
                                (''insights'', JArr []),
                                (''visualization_type'', JStr ''table'')]))"
  using interpret_results_falls_back_on_unparsable_reply
      [of "\<lambda>rs. Inr ''[...]''" "[[(''id'', 1::int)], [(''id'', 2)], [(''id'', 3)]]" "''[...]''"
          "\<lambda>p. Inr ''Sorry, no JSON today''" "''How many?''" "''SELECT id FROM data''"
          "''Sorry, no JSON today''"
          "\<lambda>s. Inl (JSONDecodeError ''Expecting value: line 1 column 1 (char 0)'')"
          "''Expecting value: line 1 column 1 (char 0)''"]
  by (simp add: str_nat.simps)

section \<open>The executor\<close>

lemma length_to_dict_records: "length (to_dict_records result) = length (frame_rows result)"
  by (simp add: to_dict_records_def)

text \<open>
  C7. \<open>execute_query\<close> always returns an outcome. When the engine raises, the outcome is
  the failure carrying the text of the engine's error and the SQL that was attempted;
  when the engine returns a frame, the outcome carries one mapping for every row of the
  frame, the frame's column names, and a row count equal to the number of mappings
  returned: no row is cut off.
\<close>

theorem execute_query_reports_failure_and_full_result:
  "(run st sql = (Inl e, st') \<longrightarrow>
      execute_query run \<lparr>db_path = p, conn = Some st\<rparr> sql =
        (QueryFailure (exn_str e) sql, \<lparr>db_path = p, conn = Some st'\<rparr>)) \<and>
   (run st sql = (Inr result, st') \<longrightarrow>
      execute_query run \<lparr>db_path = p, conn = Some st\<rparr> sql =
        (QuerySuccess (to_dict_records result) (frame_columns result)
           (length (to_dict_records result)),
         \<lparr>db_path = p, conn = Some st'\<rparr>) \<and>
      length (to_dict_records result) = length (frame_rows result)) \<and>
   (\<exists>err. execute_query run \<lparr>db_path = p, conn = None\<rparr> sql =
        (QueryFailure err sql, \<lparr>db_path = p, conn = None\<rparr>))"
  by (simp add: execute_query_def length_to_dict_records)

theorem execute_query_reports_witness:
  "demo_run 0 ''SELEC 1'' =
     (Inl (RuntimeError ''Parser Error: syntax error at or near SELEC''), 0) \<and>
   execute_query demo_run \<lparr>db_path = ''p.duckdb'', conn = Some 0\<rparr> ''SELEC 1'' =
     (QueryFailure ''Parser Error: syntax error at or near SELEC'' ''SELEC 1'',
      \<lparr>db_path = ''p.duckdb'', conn = Some 0\<rparr>) \<and>
   demo_run 0 ''SELECT id, n FROM data'' =
     (Inr \<lparr>frame_columns = [''id'', ''n''], frame_rows = [[1, 10], [2, 20], [3, 30]]\<rparr>, 0) \<and>
   execute_query demo_run \<lparr>db_path = ''p.duckdb'', conn = Some 0\<rparr> ''SELECT id, n FROM data'' =
     (QuerySuccess
        [[(''id'', 1), (''n'', 10)], [(''id'', 2), (''n'', 20)], [(''id'', 3), (''n'', 30)]]
        [''id'', ''n''] 3,
      \<lparr>db_path = ''p.duckdb'', conn = Some 0\<rparr>)"
proof -
  have a: "demo_run 0 ''SELEC 1'' =
      (Inl (RuntimeError ''Parser Error: syntax error at or near SELEC''), 0)"
    by (simp add: demo_run_def)
  have b: "demo_run 0 ''SELECT id, n FROM data'' =
     (Inr \<lparr>frame_columns = [''id'', ''n''], frame_rows = [[1, 10], [2, 20], [3, 30]]\<rparr>, 0)"
    by (simp add: demo_run_def)
  have r: "to_dict_records
             \<lparr>frame_columns = [''id'', ''n''], frame_rows = [[1, 10], [2, 20], [3, 30::int]]\<rparr>
     = [[(''id'', 1), (''n'', 10)], [(''id'', 2), (''n'', 20)], [(''id'', 3), (''n'', 30)]]"
    by (simp add: to_dict_records_def py_dict_def)
  show ?thesis
    using a b r
      execute_query_reports_failure_and_full_result
        [of demo_run 0 "''SELEC 1''"
            "RuntimeError ''Parser Error: syntax error at or near SELEC''" 0 "''p.duckdb''"]
      execute_query_reports_failure_and_full_result
        [of demo_run 0 "''SELECT id, n FROM data''" _ 0 "''p.duckdb''"
            "\<lparr>frame_columns = [''id'', ''n''], frame_rows = [[1, 10], [2, 20], [3, 30]]\<rparr>"]
    by simp
qed

section \<open>The endpoint: what each step leaves behind\<close>

lemmas demo_defs = demo_env_def demo_world_def demo_request_def scripted_llm_def failing_run_def
  demo_loads_def demo_run_def demo_chat_def demo_project_def demo_config_def
  connection_error_def llm_generation_down_def llm_repair_down_def llm_interpreter_down_def
  llm_healing_def llm_chart_5_def reply_chart_5_def locked_connect_def demo_rows_def
  demo_world_unconfigured_def

lemmas pipeline_defs = query_data_def get_chat_def get_project_def get_active_config_def
  query_data_try_def prepare_def initialize_llm_def load_schema_def query_data_with_def
  DuckDBManager_enter_def execute_with_repair_def execute_query_def interpret_and_store_def
  interpret_results_def commit_content_def validate_response_def
  text_to_sql_def fix_sql_error_def close_store_def db_add_def log_event_def
  user_turn_def error_turn_def exception_turn_def answer_turn_def recent_history_def last5_def
  py_strip_def py_isspace_def startswith_def fence_def fence_sql_def py_replace_def
  to_dict_records_def py_dict_def canned_interpretation_def no_attribute_def found_results_def

lemma query_data_found:
  assumes "get_chat w uid req = Some chat" and "get_active_config w uid = Some cfg"
  shows "query_data E uid req w =
     (case query_data_try E chat (get_project w chat) cfg (req_query req)
             (db_add (user_turn (chat_id chat) (req_query req)) w) of
        (Inl e, w2) \<Rightarrow> (Inl (HTTPException 500 (exn_str e)),
                         db_add (exception_turn (chat_id chat) e) w2)
      | (Inr response, w2) \<Rightarrow> (Inr response, w2))"
  using assms by (simp add: query_data_def Let_def)

lemma query_data_try_generation_failed:
  assumes "prepare E project cfg = Inr (llm, proj, schema)"
      and "text_to_sql llm q schema (recent_history (chat_id chat) (messages w)) = SqlFailure err"
  shows "query_data_try E chat project cfg q w =
           (Inl (HTTPException 500 (''Failed to generate SQL: '' @ err)), log_event Generated w)"
  using assms by (simp add: query_data_try_def Let_def)

lemma messages_log_event [simp]: "messages (log_event ev w) = messages w"
  by (simp add: log_event_def)

lemma trace_log_event [simp]: "trace (log_event ev w) = trace w @ [ev]"
  by (simp add: log_event_def)

lemma stores_log_event [simp]: "stores (log_event ev w) = stores w"
  by (simp add: log_event_def)

lemma messages_db_add [simp]: "messages (db_add m w) = messages w @ [m]"
  by (simp add: db_add_def)

lemma trace_db_add [simp]: "trace (db_add m w) = trace w @ [Stored m]"
  by (simp add: db_add_def)

lemma stores_db_add [simp]: "stores (db_add m w) = stores w"
  by (simp add: db_add_def)

lemma messages_close_store [simp]: "messages (close_store d w) = messages w"
  by (simp add: close_store_def split: option.splits)

lemma trace_close_store [simp]: "trace (close_store d w) = trace w"
  by (simp add: close_store_def split: option.splits)

lemma query_data_try_locked:
  assumes "prepare E project cfg = Inr (llm, proj, schema)"
      and "text_to_sql llm q schema (recent_history (chat_id chat) (messages w)) = SqlSuccess sql"
      and "DuckDBManager_enter (connect E) (project_duckdb_file_path proj)
             (stores w (project_duckdb_file_path proj)) = Inl e"
  shows "query_data_try E chat project cfg q w = (Inl e, log_event Generated w)"
  using assms by (simp add: query_data_try_def Let_def)

lemma query_data_try_opened:
  assumes "prepare E project cfg = Inr (llm, proj, schema)"
      and "text_to_sql llm q schema (recent_history (chat_id chat) (messages w)) = SqlSuccess sql"
      and "DuckDBManager_enter (connect E) (project_duckdb_file_path proj)
             (stores w (project_duckdb_file_path proj)) = Inr duck_db"
  shows "query_data_try E chat project cfg q w =
           (case query_data_with E llm (chat_id chat) q schema sql duck_db
                   (log_event Generated w) of
              (r, duck_db', w2) \<Rightarrow> (r, close_store duck_db' w2))"
  using assms by (simp add: query_data_try_def Let_def)

lemma enter_connected:
  "connect_fn path file = Inr st \<Longrightarrow>
   DuckDBManager_enter connect_fn path file = Inr \<lparr>db_path = path, conn = Some st\<rparr>"
  by (simp add: DuckDBManager_enter_def)

lemma execute_query_row_count:
  "execute_query run d sql = (QuerySuccess rows cols n, d') \<Longrightarrow> n = length rows"
  by (auto simp: execute_query_def length_to_dict_records
      split: option.splits sum.splits prod.splits)

lemma execute_with_repair_row_count:
  "execute_with_repair E llm schema sql d w = (sql', QuerySuccess rows cols n, d', w') \<Longrightarrow>
   n = length rows"
  by (auto simp: execute_with_repair_def Let_def dest: execute_query_row_count
      split: prod.splits query_result.splits sql_result.splits)

lemma execute_with_repair_messages:
  "execute_with_repair E llm schema sql d w = (sql', qr, d', w') \<Longrightarrow> messages w' = messages w"
  by (auto simp: execute_with_repair_def Let_def
      split: prod.splits query_result.splits sql_result.splits)

lemma execute_with_repair_trace:
  "execute_with_repair E llm schema sql d w = (sql', qr, d', w') \<Longrightarrow>
   prefix (trace w) (trace w')"
  by (auto simp: execute_with_repair_def Let_def
      split: prod.splits query_result.splits sql_result.splits)

lemma interpret_and_store_grows:
  "interpret_and_store E llm cid q sql rows n w = (r, w') \<Longrightarrow>
     prefix (trace w) (trace w') \<and> prefix (messages w) (messages w')"
  by (auto simp: interpret_and_store_def Let_def split: sum.splits)

lemma query_data_with_grows:
  assumes "query_data_with E llm cid q schema sql d w = (r, d', w')"
  shows "prefix (trace w) (trace w') \<and> prefix (messages w) (messages w')"
proof (cases "execute_with_repair E llm schema sql d w")
  case (fields sql1 qr d1 w1)
  have t1: "prefix (trace w) (trace w1)" and m1: "messages w1 = messages w"
    using fields execute_with_repair_trace execute_with_repair_messages by blast+
  show ?thesis
  proof (cases qr)
    case (QueryFailure err failed)
    with fields assms have "w' = db_add (error_turn cid sql1 err) w1"
      by (auto simp: query_data_with_def Let_def)
    with t1 m1 show ?thesis by (auto intro: prefix_order.trans)
  next
    case (QuerySuccess rows cols n)
    with fields assms obtain r1 where "interpret_and_store E llm cid q sql1 rows n w1 = (r1, w')"
      by (auto simp: query_data_with_def Let_def split: prod.splits)
    then have "prefix (trace w1) (trace w') \<and> prefix (messages w1) (messages w')"
      by (rule interpret_and_store_grows)
    with t1 m1 show ?thesis by (auto intro: prefix_order.trans)
  qed
qed

lemma query_data_try_grows:
  assumes "query_data_try E chat project cfg q w = (r, w')"
  shows "prefix (trace w) (trace w') \<and> prefix (messages w) (messages w')"
proof (cases "prepare E project cfg")
  case (Inl e)
  with assms show ?thesis by (simp add: query_data_try_def)
next
  case (Inr t)
  then obtain llm proj schema where prep: "prepare E project cfg = Inr (llm, proj, schema)"
    by (cases t) auto
  show ?thesis
  proof (cases "text_to_sql llm q schema (recent_history (chat_id chat) (messages w))")
    case (SqlFailure err)
    from query_data_try_generation_failed[OF prep SqlFailure] assms show ?thesis by auto
  next
    case (SqlSuccess sql)
    show ?thesis
    proof (cases "DuckDBManager_enter (connect E) (project_duckdb_file_path proj)
                    (stores w (project_duckdb_file_path proj))")
      case (Inl e)
      from query_data_try_locked[OF prep SqlSuccess Inl] assms show ?thesis by auto
    next
      case (Inr duck_db)
      obtain r1 d1 w1 where qw: "query_data_with E llm (chat_id chat) q schema sql duck_db
                     (log_event Generated w) = (r1, d1, w1)"
        by (metis prod_cases3)
      from query_data_try_opened[OF prep SqlSuccess Inr] qw assms
      have "w' = close_store d1 w1" by simp
      moreover from query_data_with_grows[OF qw]
      have "prefix (trace w @ [Generated]) (trace w1)" "prefix (messages w) (messages w1)"
        by simp_all
      ultimately show ?thesis by (auto dest: append_prefixD)
    qed
  qed
qed

lemma query_data_generated:
  assumes chat: "get_chat w uid req = Some chat"
      and cfg: "get_active_config w uid = Some cfg"
      and prep: "prepare E (get_project w chat) cfg = Inr (llm, proj, schema)"
      and gen: "text_to_sql llm (req_query req) schema
                  (recent_history (chat_id chat)
                     (messages w @ [user_turn (chat_id chat) (req_query req)])) = SqlSuccess sql"
      and opened: "DuckDBManager_enter (connect E) (project_duckdb_file_path proj)
                     (stores w (project_duckdb_file_path proj)) = Inr duck_db"
  shows "query_data E uid req w =
     (case query_data_with E llm (chat_id chat) (req_query req) schema sql duck_db
             (log_event Generated (db_add (user_turn (chat_id chat) (req_query req)) w)) of
        (Inl e, d, w2) \<Rightarrow> (Inl (HTTPException 500 (exn_str e)),
                            db_add (exception_turn (chat_id chat) e) (close_store d w2))
      | (Inr response, d, w2) \<Rightarrow> (Inr response, close_store d w2))"
proof -
  let ?w1 = "db_add (user_turn (chat_id chat) (req_query req)) w"
  have gen': "text_to_sql llm (req_query req) schema
                (recent_history (chat_id chat) (messages ?w1)) = SqlSuccess sql"
    using gen by simp
  have opened': "DuckDBManager_enter (connect E) (project_duckdb_file_path proj)
                     (stores ?w1 (project_duckdb_file_path proj)) = Inr duck_db"
    using opened by simp
  show ?thesis
    unfolding query_data_found[OF chat cfg] query_data_try_opened[OF prep gen' opened']
    by (simp split: prod.splits sum.splits)
qed

lemma query_data_with_failure:
  assumes "execute_with_repair E llm schema sql d w = (sql', QueryFailure err failed, d', w')"
  shows "query_data_with E llm cid q schema sql d w =
           (Inr \<lparr>resp_message = error_turn cid sql' err, resp_data = None,
                  resp_visualization_type = None\<rparr>, d', db_add (error_turn cid sql' err) w')"
  using assms by (simp add: query_data_with_def Let_def)

lemma query_data_with_success:
  assumes "execute_with_repair E llm schema sql d w = (sql', QuerySuccess rows cols n, d', w')"
  shows "query_data_with E llm cid q schema sql d w =
           (case interpret_and_store E llm cid q sql' rows n w' of (r, w'') \<Rightarrow> (r, d', w''))"
  using assms by (simp add: query_data_with_def Let_def)

lemma execute_query_failing:
  assumes "run st sql = (Inl e, st')"
  shows "execute_query run \<lparr>db_path = p, conn = Some st\<rparr> sql =
           (QueryFailure (exn_str e) sql, \<lparr>db_path = p, conn = Some st'\<rparr>)"
  using assms by (simp add: execute_query_def)

lemma execute_query_succeeding:
  assumes "run st sql = (Inr result, st')"
  shows "execute_query run \<lparr>db_path = p, conn = Some st\<rparr> sql =
           (QuerySuccess (to_dict_records result) (frame_columns result)
              (length (frame_rows result)), \<lparr>db_path = p, conn = Some st'\<rparr>)"
  using assms by (simp add: execute_query_def)

lemma always_fails_at:
  assumes "\<forall>st s. isl (fst (run st s))"
  obtains e st' where "run st sql = (Inl e, st')"
proof -
  from assms have "isl (fst (run st sql))" by blast
  then obtain e where "fst (run st sql) = Inl e" by (cases "fst (run st sql)") auto
  then have "run st sql = (Inl e, snd (run st sql))" by (metis prod.collapse)
  then show thesis using that by blast
qed

lemma interpret_except_answer:
  "json_get (result_interpretation (interpret_except n e)) ''answer''
     (JStr (found_results n)) = Inr (JStr (found_results n))"
  by (cases e) (simp_all add: canned_interpretation_def)

lemma interpret_except_visualization:
  "json_get (result_interpretation (interpret_except n e)) ''visualization_type''
     (JStr ''table'') = Inr (JStr ''table'')"
  by (cases e) (simp_all add: canned_interpretation_def)

lemma interpret_and_store_answered:
  assumes "interpret_results llm (dumps E) (loads E) q sql rows = Inr ir"
      and "json_get (result_interpretation ir) ''answer'' (JStr (found_results n)) =
             Inr (JStr text)"
      and "json_get (result_interpretation ir) ''visualization_type'' (JStr ''table'') = Inr vz"
      and "optional_str vz = Some vo"
      and "dumps E rows = Inr dumped"
  shows "interpret_and_store E llm cid q sql rows n w =
           (Inr \<lparr>resp_message = answer_turn cid (JStr text) sql dumped,
                  resp_data = Some rows, resp_visualization_type = vo\<rparr>,
            db_add (answer_turn cid (JStr text) sql dumped) (log_event Interpreted w))"
  using assms
  by (simp add: interpret_and_store_def Let_def commit_content_def validate_response_def)

lemma demo_found:
  "get_chat demo_world 7 demo_request = Some demo_chat"
  "get_active_config demo_world 7 = Some demo_config"
  "get_project demo_world demo_chat = Some demo_project"
  by (simp_all add: get_chat_def get_active_config_def get_project_def demo_world_def
      demo_request_def demo_chat_def demo_config_def demo_project_def)

lemma demo_prepare:
  "prepare (demo_env l run) (Some demo_project) demo_config = Inr (l, demo_project, JObj [])"
  by (simp add: prepare_def demo_env_def demo_config_def demo_project_def initialize_llm_def
      load_schema_def)

lemma demo_history:
  "recent_history (chat_id demo_chat)
     (messages demo_world @ [user_turn (chat_id demo_chat) (req_query demo_request)]) =
   [(''user'', JStr ''How many rows are there?'')]"
  by (simp add: recent_history_def demo_world_def demo_chat_def demo_request_def user_turn_def)

lemma demo_generated:
  "text_to_sql llm_repair_down (req_query demo_request) (JObj [])
     (recent_history (chat_id demo_chat)
        (messages demo_world @ [user_turn (chat_id demo_chat) (req_query demo_request)])) =
   SqlSuccess ''SELECT id, n FROM data''"
  "text_to_sql llm_interpreter_down (req_query demo_request) (JObj [])
     (recent_history (chat_id demo_chat)
        (messages demo_world @ [user_turn (chat_id demo_chat) (req_query demo_request)])) =
   SqlSuccess ''SELECT id, n FROM data''"
  "text_to_sql llm_healing (req_query demo_request) (JObj [])
     (recent_history (chat_id demo_chat)
        (messages demo_world @ [user_turn (chat_id demo_chat) (req_query demo_request)])) =
   SqlSuccess ''SELEC id, n FROM data''"
  unfolding demo_history
  by (simp_all add: text_to_sql_def llm_repair_down_def llm_interpreter_down_def
      llm_healing_def scripted_llm_def py_strip_def py_isspace_def startswith_def fence_def
      fence_sql_def)

lemma demo_repaired:
  "fix_sql_error llm_healing sql err schema = SqlSuccess ''SELECT id, n FROM data''"
  "fix_sql_error llm_chart_5 sql err schema = SqlSuccess ''SELECT id, n FROM data''"
  by (simp_all add: fix_sql_error_def llm_healing_def llm_chart_5_def scripted_llm_def
      py_strip_def py_isspace_def startswith_def fence_def fence_sql_def py_replace_def)

lemma demo_connected:
  "connect (demo_env l run) (project_duckdb_file_path demo_project)
     (stores demo_world (project_duckdb_file_path demo_project)) = Inr 0"
  by (simp add: demo_env_def demo_world_def)

section \<open>The endpoint: failures, ordering and repair\<close>




text \<open>
  A store that cannot be opened: the request fails with HTTP 500, nothing is executed
  and no repair is asked for.
\<close>

lemma locked_store_fails_unexecuted:
  "fst (query_data ((demo_env llm_healing demo_run)\<lparr>connect := locked_connect\<rparr>) 7
          demo_request demo_world) =
     Inl (HTTPException 500 ''IO Error: Could not set lock on file'') \<and>
   trace (snd (query_data ((demo_env llm_healing demo_run)\<lparr>connect := locked_connect\<rparr>) 7
                 demo_request demo_world)) =
     [Stored (user_turn 1 ''How many rows are there?''), Generated,
      Stored (exception_turn 1 (RuntimeError ''IO Error: Could not set lock on file''))]"
  by (simp add: demo_defs pipeline_defs str_nat.simps Let_def)

text \<open>
  C2, as the code has it. For a resolved chat: without an active configuration the
  request fails with HTTP 400 and the state is unchanged, so no turn is stored; with an
  active configuration the first thing the request does is store the user turn, before
  any call to the generator.
\<close>

theorem user_turn_stored_once_configured:
  assumes "get_chat w uid req = Some chat"
  shows "(get_active_config w uid = None \<longrightarrow>
            query_data E uid req w =
              (Inl (HTTPException 400
                 ''No active LLM configuration. Please configure your API key.''), w)) \<and>
         (get_active_config w uid = Some cfg \<longrightarrow>
            prefix (trace w @ [Stored (user_turn (chat_id chat) (req_query req))])
                   (trace (snd (query_data E uid req w))) \<and>
            prefix (messages w @ [user_turn (chat_id chat) (req_query req)])
                   (messages (snd (query_data E uid req w))))"
proof (intro conjI impI)
  assume "get_active_config w uid = None"
  with assms show "query_data E uid req w =
      (Inl (HTTPException 400 ''No active LLM configuration. Please configure your API key.''), w)"
    by (simp add: query_data_def Let_def)
next
  assume cfg: "get_active_config w uid = Some cfg"
  let ?u = "user_turn (chat_id chat) (req_query req)"
  obtain r w2 where t: "query_data_try E chat (get_project w chat) cfg (req_query req) (db_add ?u w) = (r, w2)"
    by (cases "query_data_try E chat (get_project w chat) cfg (req_query req) (db_add ?u w)")
  from query_data_try_grows[OF t]
  have g: "prefix (trace w @ [Stored ?u]) (trace w2)" "prefix (messages w @ [?u]) (messages w2)"
    by simp_all
  have "snd (query_data E uid req w) = w2 \<or>
        (\<exists>e. snd (query_data E uid req w) = db_add (exception_turn (chat_id chat) e) w2)"
    using query_data_found[OF assms cfg, of E] t by (cases r) auto
  then show "prefix (trace w @ [Stored ?u]) (trace (snd (query_data E uid req w)))"
    using g(1) by (auto intro: prefix_order.trans)
  show "prefix (messages w @ [?u]) (messages (snd (query_data E uid req w)))"
    using \<open>snd (query_data E uid req w) = w2 \<or> _\<close> g(2) by (auto intro: prefix_order.trans)
qed

theorem user_turn_stored_witness:
  "get_chat demo_world 7 demo_request = Some demo_chat \<and>
   get_active_config demo_world 7 = Some demo_config \<and>
   prefix ([] @ [Stored (user_turn 1 ''How many rows are there?'')])
     (trace (snd (query_data (demo_env llm_healing demo_run) 7 demo_request demo_world))) \<and>
   prefix ([] @ [user_turn 1 ''How many rows are there?''])
     (messages (snd (query_data (demo_env llm_healing demo_run) 7 demo_request demo_world))) \<and>
   get_chat demo_world_unconfigured 7 demo_request = Some demo_chat \<and>
   get_active_config demo_world_unconfigured 7 = None \<and>
   query_data (demo_env llm_healing demo_run) 7 demo_request demo_world_unconfigured =
     (Inl (HTTPException 400 ''No active LLM configuration. Please configure your API key.''),
      demo_world_unconfigured)"
proof -
  have a: "get_chat demo_world_unconfigured 7 demo_request = Some demo_chat"
    by (simp add: get_chat_def demo_world_unconfigured_def demo_world_def demo_request_def
        demo_chat_def)
  have b: "get_active_config demo_world_unconfigured 7 = None"
    by (simp add: get_active_config_def demo_world_unconfigured_def demo_world_def)
  have t: "trace demo_world = []" "messages demo_world = []"
    by (simp_all add: demo_world_def)
  have r: "chat_id demo_chat = 1" "req_query demo_request = ''How many rows are there?''"
    by (simp_all add: demo_chat_def demo_request_def)
  show ?thesis
    using a b demo_found(1,2)
      user_turn_stored_once_configured [where w = demo_world and uid = 7 and req = demo_request and chat = demo_chat
          and cfg = demo_config and E = "demo_env llm_healing demo_run", OF demo_found(1)]
      user_turn_stored_once_configured [where w = demo_world_unconfigured and uid = 7 and req = demo_request
          and chat = demo_chat and E = "demo_env llm_healing demo_run", OF a]
    by (simp add: t r)
qed

theorem no_user_turn_without_configuration:
  "get_chat demo_world_unconfigured 7 demo_request = Some demo_chat \<and>
   fst (query_data (demo_env llm_healing demo_run) 7 demo_request demo_world_unconfigured) =
     Inl (HTTPException 400 ''No active LLM configuration. Please configure your API key.'') \<and>
   messages (snd (query_data (demo_env llm_healing demo_run) 7 demo_request
                    demo_world_unconfigured)) = []"
  by (simp add: query_data_def get_chat_def get_active_config_def get_project_def
      demo_world_unconfigured_def demo_world_def demo_request_def demo_chat_def)

text \<open>
  C3, as the code has it. When SQL was generated, the store opened and the executor
  fails on every statement, the request makes one generation call, one execution call
  and one repair call; it re-executes once when the repair call returned SQL and not at
  all when the repair call failed; then it stores the error turn of a failed execution
  and answers with it. There is no second repair.
\<close>

theorem one_repair_cycle_against_failing_executor:
  assumes chat: "get_chat w uid req = Some chat"
      and cfg: "get_active_config w uid = Some cfg"
      and prep: "prepare E (get_project w chat) cfg = Inr (llm, proj, schema)"
      and gen: "text_to_sql llm (req_query req) schema
                  (recent_history (chat_id chat)
                     (messages w @ [user_turn (chat_id chat) (req_query req)])) = SqlSuccess sql"
      and opened: "connect E (project_duckdb_file_path proj)
                     (stores w (project_duckdb_file_path proj)) = Inr st0"
      and fails: "\<forall>st s. isl (fst (engine E st s))"
  shows "\<exists>err.
      (\<exists>m. fix_sql_error llm sql err schema = SqlFailure m \<and>
         trace (snd (query_data E uid req w)) =
           trace w @ [Stored (user_turn (chat_id chat) (req_query req)), Generated,
                      Executed sql, Repaired sql err,
                      Stored (error_turn (chat_id chat) sql err)] \<and>
         fst (query_data E uid req w) =
           Inr \<lparr>resp_message = error_turn (chat_id chat) sql err, resp_data = None,
                resp_visualization_type = None\<rparr>) \<or>
      (\<exists>fixed err'. fix_sql_error llm sql err schema = SqlSuccess fixed \<and>
         trace (snd (query_data E uid req w)) =
           trace w @ [Stored (user_turn (chat_id chat) (req_query req)), Generated,
                      Executed sql, Repaired sql err, Executed fixed,
                      Stored (error_turn (chat_id chat) fixed err')] \<and>
         fst (query_data E uid req w) =
           Inr \<lparr>resp_message = error_turn (chat_id chat) fixed err', resp_data = None,
                resp_visualization_type = None\<rparr>)"
proof -
  let ?u = "user_turn (chat_id chat) (req_query req)"
  let ?p = "project_duckdb_file_path proj"
  let ?w1 = "log_event Generated (db_add ?u w)"
  let ?d = "\<lparr>db_path = ?p, conn = Some st0\<rparr>"
  note entered = enter_connected[of "connect E" "project_duckdb_file_path proj"
      "stores w (project_duckdb_file_path proj)" st0, OF opened]
  obtain e1 st1 where r1: "engine E st0 sql = (Inl e1, st1)"
    using always_fails_at[OF fails] by blast
  note x1 = execute_query_failing[of "engine E" st0 sql e1 st1 ?p, OF r1]
  show ?thesis
  proof (cases "fix_sql_error llm sql (exn_str e1) schema")
    case (SqlFailure m)
    have ex: "execute_with_repair E llm schema sql ?d ?w1 =
                (sql, QueryFailure (exn_str e1) sql, \<lparr>db_path = ?p, conn = Some st1\<rparr>,
                 log_event (Repaired sql (exn_str e1)) (log_event (Executed sql) ?w1))"
      by (simp add: execute_with_repair_def x1 SqlFailure Let_def)
    have q: "query_data E uid req w =
        (Inr \<lparr>resp_message = error_turn (chat_id chat) sql (exn_str e1), resp_data = None,
               resp_visualization_type = None\<rparr>,
         close_store \<lparr>db_path = ?p, conn = Some st1\<rparr>
           (db_add (error_turn (chat_id chat) sql (exn_str e1))
              (log_event (Repaired sql (exn_str e1)) (log_event (Executed sql) ?w1))))"
      unfolding query_data_generated[OF chat cfg prep gen entered]
        query_data_with_failure[OF ex]
      by simp
    show ?thesis
      by (rule exI[of _ "exn_str e1"], rule disjI1) (simp add: q SqlFailure)
  next
    case (SqlSuccess fixed)
    obtain e2 st2 where r2: "engine E st1 fixed = (Inl e2, st2)"
      using always_fails_at[OF fails] by blast
    note x2 = execute_query_failing[of "engine E" st1 fixed e2 st2 ?p, OF r2]
    have ex: "execute_with_repair E llm schema sql ?d ?w1 =
                (fixed, QueryFailure (exn_str e2) fixed, \<lparr>db_path = ?p, conn = Some st2\<rparr>,
                 log_event (Executed fixed)
                   (log_event (Repaired sql (exn_str e1)) (log_event (Executed sql) ?w1)))"
      by (simp add: execute_with_repair_def x1 x2 SqlSuccess Let_def)
    have q: "query_data E uid req w =
        (Inr \<lparr>resp_message = error_turn (chat_id chat) fixed (exn_str e2), resp_data = None,
               resp_visualization_type = None\<rparr>,
         close_store \<lparr>db_path = ?p, conn = Some st2\<rparr>
           (db_add (error_turn (chat_id chat) fixed (exn_str e2))
              (log_event (Executed fixed)
                 (log_event (Repaired sql (exn_str e1)) (log_event (Executed sql) ?w1)))))"
      unfolding query_data_generated[OF chat cfg prep gen entered]
        query_data_with_failure[OF ex]
      by simp
    show ?thesis
      by (rule exI[of _ "exn_str e1"], rule disjI2, rule exI[of _ fixed],
          rule exI[of _ "exn_str e2"]) (simp add: q SqlSuccess)
  qed
qed

theorem one_repair_cycle_witness:
  "get_chat demo_world 7 demo_request = Some demo_chat \<and>
   get_active_config demo_world 7 = Some demo_config \<and>
   prepare (demo_env llm_healing failing_run) (get_project demo_world demo_chat) demo_config =
     Inr (llm_healing, demo_project, JObj []) \<and>
   connect (demo_env llm_healing failing_run) (project_duckdb_file_path demo_project)
     (stores demo_world (project_duckdb_file_path demo_project)) = Inr 0 \<and>
   (\<forall>st s. isl (fst (engine (demo_env llm_healing failing_run) st s))) \<and>
   trace (snd (query_data (demo_env llm_healing failing_run) 7 demo_request demo_world)) =
     [Stored (user_turn 1 ''How many rows are there?''), Generated,
      Executed ''SELEC id, n FROM data'',
      Repaired ''SELEC id, n FROM data''
        ''Catalog Error: Table with name data does not exist!'',
      Executed ''SELECT id, n FROM data'',
      Stored (error_turn 1 ''SELECT id, n FROM data''
                ''Catalog Error: Table with name data does not exist!'')]"
proof -
  have p: "prepare (demo_env llm_healing failing_run) (get_project demo_world demo_chat)
             demo_config = Inr (llm_healing, demo_project, JObj [])"
    by (simp add: demo_found demo_prepare)
  have f: "\<forall>st s. isl (fst (engine (demo_env llm_healing failing_run) st s))"
    by (simp add: demo_env_def failing_run_def)
  have v: "trace (snd (query_data (demo_env llm_healing failing_run) 7 demo_request demo_world)) =
     [Stored (user_turn 1 ''How many rows are there?''), Generated,
      Executed ''SELEC id, n FROM data'',
      Repaired ''SELEC id, n FROM data''
        ''Catalog Error: Table with name data does not exist!'',
      Executed ''SELECT id, n FROM data'',
      Stored (error_turn 1 ''SELECT id, n FROM data''
                ''Catalog Error: Table with name data does not exist!'')]"
    by (simp add: demo_defs pipeline_defs str_nat.simps Let_def)
  show ?thesis
    using p f v demo_found(1,2) demo_connected
      one_repair_cycle_against_failing_executor
        [where w = demo_world and uid = 7 and req = demo_request and chat = demo_chat
           and cfg = demo_config and E = "demo_env llm_healing failing_run"
           and llm = llm_healing and proj = demo_project and schema = "JObj []"
           and sql = "''SELEC id, n FROM data''" and ?st0.0 = 0,
           OF demo_found(1) demo_found(2) p demo_generated(3) demo_connected f]
    by simp
qed

theorem failed_repair_skips_reexecution:
  "trace (snd (query_data (demo_env llm_repair_down failing_run) 7 demo_request demo_world)) =
     [Stored (user_turn 1 ''How many rows are there?''), Generated,
      Executed ''SELECT id, n FROM data'',
      Repaired ''SELECT id, n FROM data''
        ''Catalog Error: Table with name data does not exist!'',
      Stored (error_turn 1 ''SELECT id, n FROM data''
                ''Catalog Error: Table with name data does not exist!'')]"
  by (simp add: demo_defs pipeline_defs str_nat.simps Let_def)

text \<open>
  C4, as the code has it. When SQL was generated, the store opened, the execution
  succeeded (at once or after the repair), the rows serialise for the preview and for
  storage, and the call to the interpretation model raises, \<open>interpret_results\<close> raises
  nothing: it returns what its \<open>except\<close> clauses give, the canned interpretation for a
  \<open>JSONDecodeError\<close> and a failure result otherwise. The endpoint then falls back on its
  defaults: the request succeeds, the stored assistant turn says \<open>Found n results.\<close> with
  the SQL and the serialized rows, the visualization type is \<open>table\<close>, and no error turn
  is stored.
\<close>

theorem interpreter_call_failure_degrades_to_canned_answer:
  assumes chat: "get_chat w uid req = Some chat"
      and cfg: "get_active_config w uid = Some cfg"
      and prep: "prepare E (get_project w chat) cfg = Inr (llm, proj, schema)"
      and gen: "text_to_sql llm (req_query req) schema
                  (recent_history (chat_id chat)
                     (messages w @ [user_turn (chat_id chat) (req_query req)])) = SqlSuccess sql"
      and opened: "connect E (project_duckdb_file_path proj)
                     (stores w (project_duckdb_file_path proj)) = Inr st0"
      and exec: "execute_with_repair E llm schema sql
                   \<lparr>db_path = project_duckdb_file_path proj, conn = Some st0\<rparr>
                   (log_event Generated (db_add (user_turn (chat_id chat) (req_query req)) w)) =
                   (sql', QuerySuccess rows cols n, d', w')"
      and preview: "dumps E (take 10 rows) = Inr preview"
      and down: "llm (InterpretPrompt (req_query req) sql' preview (length rows)) = Inl e"
      and dumped: "dumps E rows = Inr dumped"
  shows "interpret_results llm (dumps E) (loads E) (req_query req) sql' rows =
           Inr (interpret_except (length rows) e) \<and>
         fst (query_data E uid req w) =
           Inr \<lparr>resp_message =
                  answer_turn (chat_id chat)
                    (JStr (''Found '' @ str_nat (length rows) @ '' results.'')) sql' dumped,
                resp_data = Some rows,
                resp_visualization_type = Some ''table''\<rparr> \<and>
         messages (snd (query_data E uid req w)) =
           messages w @ [user_turn (chat_id chat) (req_query req),
                         answer_turn (chat_id chat)
                           (JStr (''Found '' @ str_nat (length rows) @ '' results.'')) sql' dumped]"
proof -
  let ?u = "user_turn (chat_id chat) (req_query req)"
  let ?a = "answer_turn (chat_id chat) (JStr (found_results (length rows))) sql' dumped"
  note entered = enter_connected[of "connect E" "project_duckdb_file_path proj"
      "stores w (project_duckdb_file_path proj)" st0, OF opened]
  have n: "n = length rows" using execute_with_repair_row_count[OF exec] .
  have m: "messages w' = messages w @ [?u]"
    using execute_with_repair_messages[OF exec] by simp
  have ir: "interpret_results llm (dumps E) (loads E) (req_query req) sql' rows =
              Inr (interpret_except (length rows) e)"
    by (simp add: interpret_results_def preview down)
  have ias: "interpret_and_store E llm (chat_id chat) (req_query req) sql' rows n w' =
              (Inr \<lparr>resp_message = ?a, resp_data = Some rows,
                     resp_visualization_type = Some ''table''\<rparr>,
               db_add ?a (log_event Interpreted w'))"
    unfolding n
    by (rule interpret_and_store_answered[OF ir interpret_except_answer
          interpret_except_visualization _ dumped]) simp
  have q: "query_data E uid req w =
        (Inr \<lparr>resp_message = ?a, resp_data = Some rows,
               resp_visualization_type = Some ''table''\<rparr>,
         close_store d' (db_add ?a (log_event Interpreted w')))"
    unfolding query_data_generated[OF chat cfg prep gen entered]
      query_data_with_success[OF exec] ias
    by simp
  show ?thesis unfolding q using m ir by (simp add: found_results_def)
qed

theorem interpreter_call_failure_witness:
  "get_chat demo_world 7 demo_request = Some demo_chat \<and>
   get_active_config demo_world 7 = Some demo_config \<and>
   prepare (demo_env llm_interpreter_down demo_run) (get_project demo_world demo_chat)
     demo_config = Inr (llm_interpreter_down, demo_project, JObj []) \<and>
   dumps (demo_env llm_interpreter_down demo_run) (take 10 demo_rows) = Inr ''[rows]'' \<and>
   llm_interpreter_down
     (InterpretPrompt (req_query demo_request) ''SELECT id, n FROM data'' ''[rows]''
        (length demo_rows)) = Inl connection_error \<and>
   dumps (demo_env llm_interpreter_down demo_run) demo_rows = Inr ''[rows]'' \<and>
   fst (query_data (demo_env llm_interpreter_down demo_run) 7 demo_request demo_world) =
     Inr \<lparr>resp_message =
            answer_turn 1 (JStr ''Found 3 results.'') ''SELECT id, n FROM data'' ''[rows]'',
          resp_data = Some demo_rows,
          resp_visualization_type = Some ''table''\<rparr>"
proof -
  let ?E = "demo_env llm_interpreter_down demo_run"
  let ?u = "user_turn (chat_id demo_chat) (req_query demo_request)"
  let ?w1 = "log_event Generated (db_add ?u demo_world)"
  have p: "prepare ?E (get_project demo_world demo_chat) demo_config =
             Inr (llm_interpreter_down, demo_project, JObj [])"
    by (simp add: demo_found demo_prepare)
  have x: "execute_with_repair ?E llm_interpreter_down (JObj []) ''SELECT id, n FROM data''
             \<lparr>db_path = project_duckdb_file_path demo_project, conn = Some 0\<rparr> ?w1 =
           (''SELECT id, n FROM data'', QuerySuccess demo_rows [''id'', ''n''] 3,
            \<lparr>db_path = ''p.duckdb'', conn = Some 0\<rparr>,
            log_event (Executed ''SELECT id, n FROM data'') ?w1)"
    by (simp add: execute_with_repair_def execute_query_def demo_env_def demo_run_def
        demo_project_def demo_rows_def to_dict_records_def py_dict_def Let_def)
  have d1: "dumps ?E (take 10 demo_rows) = Inr ''[rows]''"
    by (simp add: demo_env_def)
  have d2: "dumps ?E demo_rows = Inr ''[rows]''"
    by (simp add: demo_env_def)
  have l: "llm_interpreter_down
     (InterpretPrompt (req_query demo_request) ''SELECT id, n FROM data'' ''[rows]''
        (length demo_rows)) = Inl connection_error"
    by (simp add: llm_interpreter_down_def scripted_llm_def)
  show ?thesis
    using p d1 d2 l demo_found(1,2)
      interpreter_call_failure_degrades_to_canned_answer
        [where w = demo_world and uid = 7 and req = demo_request and chat = demo_chat
           and cfg = demo_config and E = ?E and llm = llm_interpreter_down
           and proj = demo_project and schema = "JObj []"
           and sql = "''SELECT id, n FROM data''" and sql' = "''SELECT id, n FROM data''"
           and ?st0.0 = 0
           and rows = demo_rows and cols = "[''id'', ''n'']" and n = 3
           and preview = "''[rows]''" and e = connection_error and dumped = "''[rows]''",
           OF demo_found(1) demo_found(2) p demo_generated(2) demo_connected x d1 l d2]
    by (simp add: demo_rows_def str_nat.simps demo_chat_def demo_request_def demo_world_def)
qed

theorem interpreter_call_failure_is_not_a_request_failure:
  "llm_interpreter_down
     (InterpretPrompt ''How many rows are there?'' ''SELECT id, n FROM data'' ''[rows]'' 3) =
     Inl (RuntimeError ''Connection error.'') \<and>
   fst (query_data (demo_env llm_interpreter_down demo_run) 7 demo_request demo_world) =
     Inr \<lparr>resp_message =
            answer_turn 1 (JStr ''Found 3 results.'') ''SELECT id, n FROM data'' ''[rows]'',
          resp_data = Some demo_rows,
          resp_visualization_type = Some ''table''\<rparr> \<and>
   messages (snd (query_data (demo_env llm_interpreter_down demo_run) 7 demo_request
                    demo_world)) =
     [user_turn 1 ''How many rows are there?'',
      answer_turn 1 (JStr ''Found 3 results.'') ''SELECT id, n FROM data'' ''[rows]'']"
  by (simp add: demo_defs pipeline_defs str_nat.simps Let_def)

text \<open>
  C8, as the code has it. When the store opened, the first execution fails, the repair
  returns SQL, the second execution succeeds, and the steps after it go through (the
  rows serialise for the preview and for storage, the interpretation is an object whose
  answer, or its default, is a string and whose visualization type, or its default, is a
  string or null), the request succeeds, the last stored turn is the assistant's answer
  and its \<open>sql_query\<close> is the repaired statement.
\<close>

theorem repaired_sql_is_persisted:
  assumes chat: "get_chat w uid req = Some chat"
      and cfg: "get_active_config w uid = Some cfg"
      and prep: "prepare E (get_project w chat) cfg = Inr (llm, proj, schema)"
      and gen: "text_to_sql llm (req_query req) schema
                  (recent_history (chat_id chat)
                     (messages w @ [user_turn (chat_id chat) (req_query req)])) = SqlSuccess sql"
      and opened: "connect E (project_duckdb_file_path proj)
                     (stores w (project_duckdb_file_path proj)) = Inr st0"
      and first: "engine E st0 sql = (Inl e1, st1)"
      and repair: "fix_sql_error llm sql (exn_str e1) schema = SqlSuccess fixed"
      and second: "engine E st1 fixed = (Inr result, st2)"
      and interp: "interpret_results llm (dumps E) (loads E) (req_query req) fixed
                     (to_dict_records result) = Inr ir"
      and answer: "json_get (result_interpretation ir) ''answer''
                     (JStr (found_results (length (frame_rows result)))) = Inr (JStr said)"
      and viz: "json_get (result_interpretation ir) ''visualization_type'' (JStr ''table'') =
                  Inr vz"
      and valid: "optional_str vz = Some vo"
      and dumped: "dumps E (to_dict_records result) = Inr dumped"
  shows "fst (query_data E uid req w) =
           Inr \<lparr>resp_message = answer_turn (chat_id chat) (JStr said) fixed dumped,
                resp_data = Some (to_dict_records result),
                resp_visualization_type = vo\<rparr> \<and>
         messages (snd (query_data E uid req w)) =
           messages w @ [user_turn (chat_id chat) (req_query req),
                         answer_turn (chat_id chat) (JStr said) fixed dumped] \<and>
         msg_sql_query (last (messages (snd (query_data E uid req w)))) = Some fixed"
proof -
  let ?u = "user_turn (chat_id chat) (req_query req)"
  let ?p = "project_duckdb_file_path proj"
  let ?w1 = "log_event Generated (db_add ?u w)"
  let ?d = "\<lparr>db_path = ?p, conn = Some st0\<rparr>"
  let ?w' = "log_event (Executed fixed)
               (log_event (Repaired sql (exn_str e1)) (log_event (Executed sql) ?w1))"
  let ?n = "length (frame_rows result)"
  let ?a = "answer_turn (chat_id chat) (JStr said) fixed dumped"
  note entered = enter_connected[of "connect E" ?p "stores w ?p" st0, OF opened]
  note x1 = execute_query_failing[of "engine E" st0 sql e1 st1 ?p, OF first]
  note x2 = execute_query_succeeding[of "engine E" st1 fixed result st2 ?p, OF second]
  have ex: "execute_with_repair E llm schema sql ?d ?w1 =
              (fixed, QuerySuccess (to_dict_records result) (frame_columns result) ?n,
               \<lparr>db_path = ?p, conn = Some st2\<rparr>, ?w')"
    by (simp add: execute_with_repair_def x1 x2 repair Let_def)
  have ias: "interpret_and_store E llm (chat_id chat) (req_query req) fixed
              (to_dict_records result) ?n ?w' =
              (Inr \<lparr>resp_message = ?a, resp_data = Some (to_dict_records result),
                     resp_visualization_type = vo\<rparr>,
               db_add ?a (log_event Interpreted ?w'))"
    by (rule interpret_and_store_answered[OF interp answer viz valid dumped])
  have q: "query_data E uid req w =
        (Inr \<lparr>resp_message = ?a, resp_data = Some (to_dict_records result),
               resp_visualization_type = vo\<rparr>,
         close_store \<lparr>db_path = ?p, conn = Some st2\<rparr> (db_add ?a (log_event Interpreted ?w')))"
    unfolding query_data_generated[OF chat cfg prep gen entered]
      query_data_with_success[OF ex] ias
    by simp
  show ?thesis unfolding q by (simp add: answer_turn_def)
qed

theorem repaired_sql_witness:
  "get_chat demo_world 7 demo_request = Some demo_chat \<and>
   get_active_config demo_world 7 = Some demo_config \<and>
   prepare (demo_env llm_healing demo_run) (get_project demo_world demo_chat) demo_config =
     Inr (llm_healing, demo_project, JObj []) \<and>
   connect (demo_env llm_healing demo_run) (project_duckdb_file_path demo_project)
     (stores demo_world (project_duckdb_file_path demo_project)) = Inr 0 \<and>
   engine (demo_env llm_healing demo_run) 0 ''SELEC id, n FROM data'' =
     (Inl (RuntimeError ''Parser Error: syntax error at or near SELEC''), 0) \<and>
   fix_sql_error llm_healing ''SELEC id, n FROM data''
     (exn_str (RuntimeError ''Parser Error: syntax error at or near SELEC'')) (JObj []) =
     SqlSuccess ''SELECT id, n FROM data'' \<and>
   engine (demo_env llm_healing demo_run) 0 ''SELECT id, n FROM data'' =
     (Inr \<lparr>frame_columns = [''id'', ''n''], frame_rows = [[1, 10], [2, 20], [3, 30]]\<rparr>, 0) \<and>
   fst (query_data (demo_env llm_healing demo_run) 7 demo_request demo_world) =
     Inr \<lparr>resp_message =
            answer_turn 1 (JStr ''Found 3 results.'') ''SELECT id, n FROM data'' ''[rows]'',
          resp_data = Some demo_rows, resp_visualization_type = Some ''table''\<rparr> \<and>
   msg_sql_query
     (last (messages (snd (query_data (demo_env llm_healing demo_run) 7 demo_request
                             demo_world)))) = Some ''SELECT id, n FROM data''"
proof -
  let ?E = "demo_env llm_healing demo_run"
  let ?fr = "\<lparr>frame_columns = [''id'', ''n''], frame_rows = [[1, 10], [2, 20], [3, 30::int]]\<rparr>"
  let ?e1 = "RuntimeError ''Parser Error: syntax error at or near SELEC''"
  have p: "prepare ?E (get_project demo_world demo_chat) demo_config =
             Inr (llm_healing, demo_project, JObj [])"
    by (simp add: demo_found demo_prepare)
  have r1: "engine ?E 0 ''SELEC id, n FROM data'' = (Inl ?e1, 0)"
    by (simp add: demo_env_def demo_run_def)
  have r2: "engine ?E 0 ''SELECT id, n FROM data'' = (Inr ?fr, 0)"
    by (simp add: demo_env_def demo_run_def)
  have rows: "to_dict_records ?fr = demo_rows"
    by (simp add: to_dict_records_def py_dict_def demo_rows_def)
  have i: "interpret_results llm_healing (dumps ?E) (loads ?E) (req_query demo_request)
             ''SELECT id, n FROM data'' (to_dict_records ?fr) = Inr (InterpretSuccess (JObj []))"
    by (simp add: interpret_results_def demo_env_def llm_healing_def scripted_llm_def
        demo_loads_def py_strip_def py_isspace_def)
  have a: "json_get (result_interpretation (InterpretSuccess (JObj []))) ''answer''
             (JStr (found_results (length (frame_rows ?fr)))) = Inr (JStr ''Found 3 results.'')"
    by (simp add: found_results_def str_nat.simps)
  have v: "json_get (result_interpretation (InterpretSuccess (JObj [])))
             ''visualization_type'' (JStr ''table'') = Inr (JStr ''table'')"
    by simp
  have o: "optional_str (JStr ''table'') = Some (Some ''table'')" by simp
  have d: "dumps ?E (to_dict_records ?fr) = Inr ''[rows]''" by (simp add: demo_env_def)
  show ?thesis
    using p r1 r2 demo_found(1,2) demo_repaired(1) demo_connected
      repaired_sql_is_persisted
        [where w = demo_world and uid = 7 and req = demo_request and chat = demo_chat
           and cfg = demo_config and E = ?E and llm = llm_healing
           and proj = demo_project and schema = "JObj []"
           and sql = "''SELEC id, n FROM data''" and ?st0.0 = 0
           and ?e1.0 = ?e1 and ?st1.0 = 0
           and fixed = "''SELECT id, n FROM data''" and result = ?fr and ?st2.0 = 0
           and ir = "InterpretSuccess (JObj [])" and said = "''Found 3 results.''"
           and vz = "JStr ''table''" and vo = "Some ''table''" and dumped = "''[rows]''",
           OF demo_found(1) demo_found(2) p demo_generated(3) demo_connected r1
              demo_repaired(1) r2 i a v o d]
    by (simp add: rows demo_chat_def answer_turn_def)
qed

theorem rejected_response_leaves_turn_without_sql:
  "engine (demo_env llm_chart_5 demo_run) 0 ''SELEC id, n FROM data'' =
     (Inl (RuntimeError ''Parser Error: syntax error at or near SELEC''), 0) \<and>
   fix_sql_error llm_chart_5 ''SELEC id, n FROM data''
     ''Parser Error: syntax error at or near SELEC'' (JObj []) =
     SqlSuccess ''SELECT id, n FROM data'' \<and>
   engine (demo_env llm_chart_5 demo_run) 0 ''SELECT id, n FROM data'' =
     (Inr \<lparr>frame_columns = [''id'', ''n''], frame_rows = [[1, 10], [2, 20], [3, 30]]\<rparr>, 0) \<and>
   messages (snd (query_data (demo_env llm_chart_5 demo_run) 7 demo_request demo_world)) =
     [user_turn 1 ''How many rows are there?'',
      answer_turn 1 (JStr ''Found 3 results.'') ''SELECT id, n FROM data'' ''[rows]'',
      exception_turn 1 (ValidationError [''visualization_type''])] \<and>
   msg_sql_query
     (last (messages (snd (query_data (demo_env llm_chart_5 demo_run) 7 demo_request
                             demo_world)))) = None"
  by (simp add: demo_defs pipeline_defs str_nat.simps Let_def)

end
